theory Spec2Isabelle
  imports Complex_Main "HOL-Library.Word"
begin

unbundle bit_operations_syntax

section \<open>Data model of midi\_theremin.ino\<close>

text \<open>
  The sketch runs on an 8-bit AVR board. A \<open>byte\<close> is an unsigned 8-bit integer, so
  \<open>instrument++\<close> and \<open>instrument--\<close> wrap modulo 256. The \<open>int\<close> variables of the
  sketch (the proximity levels and their observed minima and maxima) are only copied,
  compared and converted to \<open>float\<close>; no arithmetic is done on them, so their width plays
  no role and they are modelled by \<open>int\<close>.
\<close>

type_synonym byte = "8 word"

text \<open>The global variables of the sketch that never change after their initialisation.\<close>

definition min_note :: byte where "min_note = 40"
definition max_note :: byte where "max_note = 100"
definition min_volume :: byte where "min_volume = 0"
definition max_volume :: byte where "max_volume = 127"
definition direction_pitch :: byte where "direction_pitch = 0"
definition nonlinear_pitch :: int where "nonlinear_pitch = -10"
definition direction_volume :: byte where "direction_volume = 0"
definition nonlinear_volume :: int where "nonlinear_volume = -10"
definition min_instrument :: byte where "min_instrument = 0"
definition max_instrument :: byte where "max_instrument = 127"
definition velocity :: byte where "velocity = 60"

text \<open>
  The global variables that \<open>loop()\<close> mutates, together with two histories:
  \<open>mySerial\<close> is the sequence of bytes written so far to the software serial port (the
  MIDI stream), and \<open>fscale_calls\<close> records, for every call of \<open>fscale\<close> made by
  \<open>loop()\<close>, the electrode it is made for and the arguments
  \<open>(originalMin, originalMax, inputValue)\<close>, in call order.
  The console (\<open>Serial.print\<close>), the LED pin and \<open>delay\<close> are not modelled.
\<close>

datatype electrode = Pitch | Volume

record state =
  instrument :: byte
  level_pitch :: int
  level_pitch_old :: int
  level_volume :: int
  level_volume_old :: int
  "note" :: byte
  note_old :: byte
  volume :: byte
  volume_old :: byte
  min_level_pitch :: int
  max_level_pitch :: int
  min_level_volume :: int
  max_level_volume :: int
  mySerial :: "byte list"
  fscale_calls :: "(electrode \<times> int \<times> int \<times> int) list"

text \<open>
  What the touch driver delivers in one iteration, after \<open>MPR121.updateAll()\<close>:
  \<open>isNewTouch\<close> of the two instrument electrodes and \<open>getFilteredData\<close> of the pitch
  and the volume electrode.
\<close>

record touch =
  new_touch_up :: bool
  new_touch_down :: bool
  filtered_pitch :: int
  filtered_volume :: int

section \<open>The MIDI encoder\<close>

definition mySerial_write :: "byte \<Rightarrow> state \<Rightarrow> state" where
  "mySerial_write b s = s\<lparr>mySerial := mySerial s @ [b]\<rparr>"

definition talkMIDI :: "byte \<Rightarrow> byte \<Rightarrow> byte \<Rightarrow> state \<Rightarrow> state" where
  "talkMIDI cmd data1 data2 s =
     (let s = mySerial_write cmd s;
          s = mySerial_write data1 s
      in if (cmd AND 0xF0) \<le> 0xB0 then mySerial_write data2 s else s)"

definition noteOn :: "byte \<Rightarrow> byte \<Rightarrow> byte \<Rightarrow> state \<Rightarrow> state" where
  "noteOn channel n attack_velocity s = talkMIDI (0x90 OR channel) n attack_velocity s"

definition noteOff :: "byte \<Rightarrow> byte \<Rightarrow> byte \<Rightarrow> state \<Rightarrow> state" where
  "noteOff channel n release_velocity s = talkMIDI (0x80 OR channel) n release_velocity s"

definition setupMidi :: "state \<Rightarrow> state" where
  "setupMidi s =
     (let s = talkMIDI 0xB0 0x07 (volume s) s;
          s = talkMIDI 0xB0 0 0x00 s
      in talkMIDI 0xC0 (instrument s) 0 s)"

section \<open>The instrument selector\<close>

definition change_instrument :: "int \<Rightarrow> state \<Rightarrow> state" where
  "change_instrument change s =
     (if change = 1 then
        (let s = s\<lparr>instrument := instrument s + 1\<rparr>
         in if instrument s > max_instrument then s\<lparr>instrument := min_instrument\<rparr> else s)
      else if change = -1 then
        (let s = s\<lparr>instrument := instrument s - 1\<rparr>
         in if instrument s < min_instrument then s\<lparr>instrument := max_instrument\<rparr> else s)
      else s)"

section \<open>The nonlinear range mapper\<close>

text \<open>
  \<open>fscale\<close> computes in the \<open>float\<close> type of the target, with the target's \<open>pow\<close>.
  Neither is part of the sketch: the float type \<open>'f\<close> and its operations are a
  parameter \<open>u\<close> of the model, and nothing is assumed of them (no exactness, no order
  laws, no absence of rounding, overflow or \<open>NaN\<close>). \<open>f_of\<close> converts an integer
  value or a decimal literal to float, \<open>f_byte\<close> is the assignment of a float to a
  \<open>byte\<close>, the others are \<open>+\<close>, \<open>-\<close>, \<open>*\<close>, \<open>/\<close>, \<open>pow\<close>, \<open><\<close>, \<open>>\<close> and \<open>>=\<close>
  on floats. Every theorem below that mentions \<open>u\<close> holds for every float arithmetic.
\<close>

record 'f arith =
  f_of :: "real \<Rightarrow> 'f"
  f_add :: "'f \<Rightarrow> 'f \<Rightarrow> 'f"
  f_sub :: "'f \<Rightarrow> 'f \<Rightarrow> 'f"
  f_mul :: "'f \<Rightarrow> 'f \<Rightarrow> 'f"
  f_div :: "'f \<Rightarrow> 'f \<Rightarrow> 'f"
  f_pow :: "'f \<Rightarrow> 'f \<Rightarrow> 'f"
  f_lt :: "'f \<Rightarrow> 'f \<Rightarrow> bool"
  f_gt :: "'f \<Rightarrow> 'f \<Rightarrow> bool"
  f_ge :: "'f \<Rightarrow> 'f \<Rightarrow> bool"
  f_byte :: "'f \<Rightarrow> byte"

definition fscale :: "'f arith \<Rightarrow> 'f \<Rightarrow> 'f \<Rightarrow> 'f \<Rightarrow> 'f \<Rightarrow> 'f \<Rightarrow> 'f \<Rightarrow> 'f" where
  "fscale u originalMin originalMax newBegin newEnd inputValue curve =
     (let curve = (if f_gt u curve (f_of u 10) then f_of u 10 else curve);
          curve = (if f_lt u curve (f_of u (-10)) then f_of u (-10) else curve);
          curve = f_mul u curve (f_of u (- 0.1));
          curve = f_pow u (f_of u 10) curve;
          inputValue = (if f_lt u inputValue originalMin then originalMin else inputValue);
          inputValue = (if f_gt u inputValue originalMax then originalMax else inputValue);
          OriginalRange = f_sub u originalMax originalMin;
          NewRange = (if f_gt u newEnd newBegin then f_sub u newEnd newBegin
                      else f_sub u newBegin newEnd);
          invFlag = (\<not> f_gt u newEnd newBegin);
          zeroRefCurVal = f_sub u inputValue originalMin;
          normalizedCurVal = f_div u zeroRefCurVal OriginalRange
      in if f_gt u originalMin originalMax then f_of u 0
         else if \<not> invFlag
         then f_add u (f_mul u (f_pow u normalizedCurVal curve) NewRange) newBegin
         else f_sub u newBegin (f_mul u (f_pow u normalizedCurVal curve) NewRange))"

text \<open>
  A call of \<open>fscale\<close> from \<open>loop()\<close> for the electrode \<open>e\<close>: the integer arguments are
  converted to float, and the call is recorded.
\<close>

definition fscale_call ::
  "'f arith \<Rightarrow> electrode \<Rightarrow> int \<Rightarrow> int \<Rightarrow> byte \<Rightarrow> byte \<Rightarrow> int \<Rightarrow> int \<Rightarrow> state
     \<Rightarrow> 'f \<times> state" where
  "fscale_call u e lo hi newBegin newEnd v curve s =
     (fscale u (f_of u (of_int lo)) (f_of u (of_int hi))
        (f_of u (of_nat (unat newBegin))) (f_of u (of_nat (unat newEnd)))
        (f_of u (of_int v)) (f_of u (of_int curve)),
      s\<lparr>fscale_calls := fscale_calls s @ [(e, lo, hi, v)]\<rparr>)"

section \<open>The poll loop\<close>

text \<open>Lines 178 to 194: the instrument electrodes.\<close>

definition loop_instrument :: "touch \<Rightarrow> state \<Rightarrow> state" where
  "loop_instrument t s =
     (if new_touch_up t then
        (let s = change_instrument 1 s;
             s = talkMIDI 0xC0 (instrument s) 0 s;
             s = noteOff 0 (note_old s) velocity s
         in noteOff 0 (note s) velocity s)
      else if new_touch_down t then
        (let s = change_instrument (-1) s;
             s = talkMIDI 0xC0 (instrument s) 0 s;
             s = noteOff 0 (note_old s) velocity s
         in noteOff 0 (note s) velocity s)
      else s)"

text \<open>Lines 197 and 198: the new sample of the pitch electrode.\<close>

definition read_pitch :: "touch \<Rightarrow> state \<Rightarrow> state" where
  "read_pitch t s =
     (let s = s\<lparr>level_pitch_old := level_pitch s\<rparr>
      in s\<lparr>level_pitch := filtered_pitch t\<rparr>)"

text \<open>Lines 201 to 206: the observed range of the pitch level.\<close>

definition track_pitch :: "state \<Rightarrow> state" where
  "track_pitch s =
     (let s = (if level_pitch s > max_level_pitch s
               then s\<lparr>max_level_pitch := level_pitch s\<rparr> else s)
      in if level_pitch s < min_level_pitch s
         then s\<lparr>min_level_pitch := level_pitch s\<rparr> else s)"

text \<open>Line 208: the call whose result is compared with 0.95.\<close>

definition pitch_fraction :: "'f arith \<Rightarrow> state \<Rightarrow> 'f \<times> state" where
  "pitch_fraction u s =
     fscale_call u Pitch (min_level_pitch s) (max_level_pitch s) 0 1 (level_pitch s)
       nonlinear_pitch s"

text \<open>Lines 216 to 221: the new note.\<close>

definition set_note :: "'f arith \<Rightarrow> state \<Rightarrow> state" where
  "set_note u s =
     (if direction_pitch = 0 then
        (let (x, s) = fscale_call u Pitch (min_level_pitch s) (max_level_pitch s)
                        max_note min_note (level_pitch s) nonlinear_pitch s
         in s\<lparr>note := f_byte u x\<rparr>)
      else if direction_pitch = 1 then
        (let (x, s) = fscale_call u Pitch (min_level_pitch s) (max_level_pitch s)
                        min_note max_note (level_pitch s) nonlinear_pitch s
         in s\<lparr>note := f_byte u x\<rparr>)
      else s)"

text \<open>Lines 197 to 232: the pitch electrode.\<close>

definition loop_pitch :: "'f arith \<Rightarrow> touch \<Rightarrow> state \<Rightarrow> state" where
  "loop_pitch u t s =
     (let s = read_pitch t s
      in if level_pitch s \<noteq> level_pitch_old s then
           (let s = track_pitch s;
                (x, s) = pitch_fraction u s
            in if f_ge u x (f_of u 0.95) then
                 (let s = noteOff 0 (note_old s) velocity s;
                      s = noteOff 0 (note s) velocity s
                  in s\<lparr>note_old := note s\<rparr>)
               else
                 (let s = set_note u s
                  in if note s \<noteq> note_old s then
                       (let s = noteOn 0 (note s) velocity s;
                            s = noteOff 0 (note_old s) velocity s
                        in s\<lparr>note_old := note s\<rparr>)
                     else s))
         else s)"

text \<open>Lines 247 to 259: the \<open>else\<close> branch of the volume electrode.\<close>

definition set_volume :: "'f arith \<Rightarrow> state \<Rightarrow> state" where
  "set_volume u s =
     (let s = (if direction_volume = 0 then
                 (let (x, s) = fscale_call u Volume (min_level_volume s) (max_level_volume s)
                                 max_volume min_volume (level_volume s) nonlinear_volume s
                  in s\<lparr>volume := f_byte u x\<rparr>)
               else if direction_volume = 1 then
                 (let (x, s) = fscale_call u Volume (min_level_volume s) (max_level_volume s)
                                 min_volume max_volume (level_volume s) nonlinear_volume s
                  in s\<lparr>volume := f_byte u x\<rparr>)
               else s)
      in if volume s \<noteq> volume_old s then
           (let s = talkMIDI 0xB0 0x07 (volume s) s
            in s\<lparr>volume_old := volume s\<rparr>)
         else s)"

text \<open>
  Lines 235 to 260: the volume electrode. The \<open>else\<close> of line 246 belongs to the \<open>if\<close>
  of line 242 alone.
\<close>

definition read_volume :: "touch \<Rightarrow> state \<Rightarrow> state" where
  "read_volume t s =
     (let s = s\<lparr>level_volume_old := level_volume s\<rparr>
      in s\<lparr>level_volume := filtered_volume t\<rparr>)"

definition loop_volume :: "'f arith \<Rightarrow> touch \<Rightarrow> state \<Rightarrow> state" where
  "loop_volume u t s =
     (let s = read_volume t s
      in if level_volume s \<noteq> level_volume_old s then
           (let s = (if level_volume s > max_level_volume s
                     then s\<lparr>max_level_volume := level_volume s\<rparr> else s)
            in if level_volume s < min_level_volume s
               then s\<lparr>min_level_volume := level_volume s\<rparr>
               else set_volume u s)
         else s)"

text \<open>One iteration of \<open>loop()\<close>.\<close>

definition loop :: "'f arith \<Rightarrow> touch \<Rightarrow> state \<Rightarrow> state" where
  "loop u t s = loop_volume u t (loop_pitch u t (loop_instrument t s))"

text \<open>
  The initialisers of lines 94 to 110, and \<open>setup()\<close> when the touch driver starts (when
  it does not, \<open>setup()\<close> never returns and \<open>loop()\<close> never runs).
\<close>

definition globals :: state where
  "globals =
     \<lparr>instrument = 80 - 1,
      level_pitch = 0, level_pitch_old = 0, level_volume = 0, level_volume_old = 0,
      note = 0, note_old = 0, volume = 0, volume_old = 0,
      min_level_pitch = 1000, max_level_pitch = 0,
      min_level_volume = 1000, max_level_volume = 0,
      mySerial = [], fscale_calls = []\<rparr>"

definition after_setup :: state where
  "after_setup = setupMidi globals"

text \<open>The state after the iterations that read \<open>ts\<close>, started in \<open>s\<close>.\<close>

fun run :: "'f arith \<Rightarrow> touch list \<Rightarrow> state \<Rightarrow> state" where
  "run u [] s = s"
| "run u (t # ts) s = run u ts (loop u t s)"

text \<open>The readings of an iteration in which no instrument electrode is newly touched.\<close>

definition no_touch :: "int \<Rightarrow> int \<Rightarrow> touch" where
  "no_touch p v =
     \<lparr>new_touch_up = False, new_touch_down = False, filtered_pitch = p, filtered_volume = v\<rparr>"

section \<open>An arithmetic for the examples\<close>

text \<open>
  The closed examples below need one concrete arithmetic. \<open>real_arith b\<close> computes
  without rounding on the real numbers, with \<open>NaN\<close> for \<open>0.0 / 0.0\<close> and for every
  operation on \<open>NaN\<close>; comparisons with \<open>NaN\<close> are false, and the assignment to a byte
  truncates towards zero and gives \<open>b\<close> where the language leaves the result undefined.
  It is not the arithmetic of the target. The examples use it only on inputs where every
  intermediate value is 0, 1 or a small integer or \<open>NaN\<close>, which binary32 computes
  without rounding as well.
\<close>

datatype cfloat = NaN | Fin real

definition lift_op :: "(real \<Rightarrow> real \<Rightarrow> real) \<Rightarrow> cfloat \<Rightarrow> cfloat \<Rightarrow> cfloat" where
  "lift_op f x y =
     (case x of NaN \<Rightarrow> NaN | Fin a \<Rightarrow> (case y of NaN \<Rightarrow> NaN | Fin b \<Rightarrow> Fin (f a b)))"

definition lift_rel :: "(real \<Rightarrow> real \<Rightarrow> bool) \<Rightarrow> cfloat \<Rightarrow> cfloat \<Rightarrow> bool" where
  "lift_rel r x y =
     (case x of NaN \<Rightarrow> False | Fin a \<Rightarrow> (case y of NaN \<Rightarrow> False | Fin b \<Rightarrow> r a b))"

definition real_div :: "cfloat \<Rightarrow> cfloat \<Rightarrow> cfloat" where
  "real_div x y =
     (case x of NaN \<Rightarrow> NaN
      | Fin a \<Rightarrow> (case y of NaN \<Rightarrow> NaN | Fin b \<Rightarrow> if b = 0 then NaN else Fin (a / b)))"

definition byte_of_float :: "byte \<Rightarrow> cfloat \<Rightarrow> byte" where
  "byte_of_float b x =
     (case x of
        NaN \<Rightarrow> b
      | Fin r \<Rightarrow> if r \<le> -1 \<or> 256 \<le> r then b
                 else if r < 0 then 0
                 else word_of_int \<lfloor>r\<rfloor>)"

definition real_arith :: "byte \<Rightarrow> cfloat arith" where
  "real_arith b =
     \<lparr>f_of = Fin,
      f_add = lift_op (+), f_sub = lift_op (-), f_mul = lift_op (*),
      f_div = real_div, f_pow = lift_op (powr),
      f_lt = lift_rel (<), f_gt = lift_rel (>), f_ge = lift_rel (\<ge>),
      f_byte = byte_of_float b\<rparr>"

section \<open>Bytes and the high nibble\<close>

lemma F0_eq: "(0xF0::byte) = push_bit 4 (mask 4)"
  by (simp add: mask_eq_exp_minus_1 push_bit_eq_mult)

lemma high_nibble_eq: "(x::byte) AND 0xF0 = push_bit 4 (drop_bit 4 x)"
  unfolding F0_eq by (rule bit_word_eqI) (auto simp: bit_simps)

lemma unat_high_nibble: "unat ((x::byte) AND 0xF0) = 16 * (unat x div 16)"
proof -
  have lt: "unat x < 256" using unsigned_less [of x] by simp
  have "unat (x AND 0xF0) = unat (push_bit 4 (drop_bit 4 x))"
    by (simp only: high_nibble_eq)
  also have "\<dots> = take_bit 8 (push_bit 4 (drop_bit 4 (unat x)))"
    by (simp only: unsigned_push_bit_eq unat_drop_bit_eq) simp
  also have "\<dots> = (16 * (unat x div 16)) mod 256"
    by (simp add: push_bit_eq_mult drop_bit_eq_div take_bit_eq_mod mult.commute)
  also have "\<dots> = 16 * (unat x div 16)"
    using lt by simp
  finally show ?thesis .
qed

lemma high_nibble_dichotomy: "(\<not> (x::byte) AND 0xF0 \<le> 0xB0) = (0xC0 \<le> x AND 0xF0)"
  unfolding word_le_nat_alt unat_high_nibble by simp linarith

lemma high_nibble_le: "((x::byte) AND 0xF0 \<le> 0xB0) = (x < 0xC0)"
  unfolding word_le_nat_alt word_less_nat_alt unat_high_nibble by simp linarith

section \<open>Properties of the MIDI encoder\<close>

lemma talkMIDI_eq:
  "talkMIDI cmd data1 data2 s =
     s\<lparr>mySerial := mySerial s @
          (if cmd AND 0xF0 \<le> 0xB0 then [cmd, data1, data2] else [cmd, data1])\<rparr>"
  by (simp add: talkMIDI_def mySerial_write_def Let_def)

lemma noteOff_eq: "noteOff 0 n v s = s\<lparr>mySerial := mySerial s @ [0x80, n, v]\<rparr>"
  by (simp add: noteOff_def talkMIDI_eq)

lemma noteOn_eq: "noteOn 0 n v s = s\<lparr>mySerial := mySerial s @ [0x90, n, v]\<rparr>"
  by (simp add: noteOn_def talkMIDI_eq)

text \<open>
  Claim C8. \<open>talkMIDI(cmd, data1, data2)\<close> appends exactly \<open>cmd, data1, data2\<close> to the
  serial stream when \<open>cmd & 0xF0\<close> is at most \<open>0xB0\<close>, and exactly \<open>cmd, data1\<close> when
  it is \<open>0xC0\<close> or more; one of the two is always the case, the choice reads only
  \<open>cmd & 0xF0\<close>, and the three bytes are arbitrary: none is validated.
\<close>

theorem talkMIDI_bytes:
  "(cmd AND 0xF0 \<le> 0xB0 \<longrightarrow>
      mySerial (talkMIDI cmd data1 data2 s) = mySerial s @ [cmd, data1, data2]) \<and>
   (0xC0 \<le> cmd AND 0xF0 \<longrightarrow>
      mySerial (talkMIDI cmd data1 data2 s) = mySerial s @ [cmd, data1]) \<and>
   (cmd AND 0xF0 \<le> 0xB0 \<or> 0xC0 \<le> cmd AND 0xF0)"
  using high_nibble_dichotomy [of cmd] by (auto simp: talkMIDI_eq)

theorem talkMIDI_bytes_witness:
  "mySerial (talkMIDI 0x90 40 60 globals) = [0x90, 40, 60] \<and>
   mySerial (talkMIDI 0xC0 79 0 globals) = [0xC0, 79]"
  using talkMIDI_bytes [of "0x90" 40 60 globals] talkMIDI_bytes [of "0xC0" 79 0 globals]
  by (simp add: globals_def)

section \<open>Properties of the instrument selector\<close>

lemma change_instrument_up:
  "instrument s \<le> 127 \<Longrightarrow>
   instrument (change_instrument 1 s) = (if instrument s = 127 then 0 else instrument s + 1)"
  apply (simp add: change_instrument_def Let_def max_instrument_def min_instrument_def)
  apply unat_arith
  done

lemma change_instrument_down:
  "instrument (change_instrument (-1) s) = instrument s - 1"
  by (simp add: change_instrument_def Let_def max_instrument_def min_instrument_def)

section \<open>The blocks of the poll loop\<close>

lemma loop_instrument_frame:
  "level_pitch (loop_instrument t s) = level_pitch s"
  "level_pitch_old (loop_instrument t s) = level_pitch_old s"
  "level_volume (loop_instrument t s) = level_volume s"
  "level_volume_old (loop_instrument t s) = level_volume_old s"
  "note (loop_instrument t s) = note s"
  "note_old (loop_instrument t s) = note_old s"
  "volume (loop_instrument t s) = volume s"
  "volume_old (loop_instrument t s) = volume_old s"
  "min_level_pitch (loop_instrument t s) = min_level_pitch s"
  "max_level_pitch (loop_instrument t s) = max_level_pitch s"
  "min_level_volume (loop_instrument t s) = min_level_volume s"
  "max_level_volume (loop_instrument t s) = max_level_volume s"
  "fscale_calls (loop_instrument t s) = fscale_calls s"
  by (simp_all add: loop_instrument_def change_instrument_def noteOff_eq talkMIDI_eq Let_def)

lemma loop_instrument_bytes:
  "new_touch_up t \<or> new_touch_down t \<Longrightarrow>
   mySerial (loop_instrument t s) =
     mySerial s @ [0xC0, instrument (loop_instrument t s),
                   0x80, note_old s, velocity, 0x80, note s, velocity]"
  by (auto simp: loop_instrument_def change_instrument_def noteOff_eq talkMIDI_eq Let_def)

lemma loop_pitch_frame:
  "instrument (loop_pitch u t s) = instrument s"
  "level_volume (loop_pitch u t s) = level_volume s"
  "level_volume_old (loop_pitch u t s) = level_volume_old s"
  "volume (loop_pitch u t s) = volume s"
  "volume_old (loop_pitch u t s) = volume_old s"
  "min_level_volume (loop_pitch u t s) = min_level_volume s"
  "max_level_volume (loop_pitch u t s) = max_level_volume s"
  by (simp_all add: loop_pitch_def read_pitch_def track_pitch_def pitch_fraction_def set_note_def
      fscale_call_def noteOff_eq noteOn_eq Let_def direction_pitch_def split: prod.splits)

lemma loop_pitch_tracker:
  "level_pitch (loop_pitch u t s) = filtered_pitch t"
  "min_level_pitch (loop_pitch u t s) =
     (if filtered_pitch t \<noteq> level_pitch s then min (min_level_pitch s) (filtered_pitch t)
      else min_level_pitch s)"
  "max_level_pitch (loop_pitch u t s) =
     (if filtered_pitch t \<noteq> level_pitch s then max (max_level_pitch s) (filtered_pitch t)
      else max_level_pitch s)"
  by (simp_all add: loop_pitch_def read_pitch_def track_pitch_def pitch_fraction_def set_note_def
      fscale_call_def noteOff_eq noteOn_eq Let_def direction_pitch_def split: prod.splits)


lemma loop_volume_frame:
  "instrument (loop_volume u t s) = instrument s"
  "level_pitch (loop_volume u t s) = level_pitch s"
  "level_pitch_old (loop_volume u t s) = level_pitch_old s"
  "note (loop_volume u t s) = note s"
  "note_old (loop_volume u t s) = note_old s"
  "min_level_pitch (loop_volume u t s) = min_level_pitch s"
  "max_level_pitch (loop_volume u t s) = max_level_pitch s"
  by (simp_all add: loop_volume_def read_volume_def set_volume_def fscale_call_def talkMIDI_eq
      Let_def direction_volume_def split: prod.splits)

lemma loop_volume_tracker:
  "level_volume (loop_volume u t s) = filtered_volume t"
  "min_level_volume (loop_volume u t s) =
     (if filtered_volume t \<noteq> level_volume s then min (min_level_volume s) (filtered_volume t)
      else min_level_volume s)"
  "max_level_volume (loop_volume u t s) =
     (if filtered_volume t \<noteq> level_volume s then max (max_level_volume s) (filtered_volume t)
      else max_level_volume s)"
  by (simp_all add: loop_volume_def read_volume_def set_volume_def fscale_call_def talkMIDI_eq
      Let_def direction_volume_def split: prod.splits)


lemma loop_tracker:
  "level_pitch (loop u t s) = filtered_pitch t"
  "min_level_pitch (loop u t s) =
     (if filtered_pitch t \<noteq> level_pitch s then min (min_level_pitch s) (filtered_pitch t)
      else min_level_pitch s)"
  "max_level_pitch (loop u t s) =
     (if filtered_pitch t \<noteq> level_pitch s then max (max_level_pitch s) (filtered_pitch t)
      else max_level_pitch s)"
  "level_volume (loop u t s) = filtered_volume t"
  "min_level_volume (loop u t s) =
     (if filtered_volume t \<noteq> level_volume s then min (min_level_volume s) (filtered_volume t)
      else min_level_volume s)"
  "max_level_volume (loop u t s) =
     (if filtered_volume t \<noteq> level_volume s then max (max_level_volume s) (filtered_volume t)
      else max_level_volume s)"
  by (simp_all add: loop_def loop_volume_frame loop_volume_tracker loop_pitch_frame
      loop_pitch_tracker loop_instrument_frame)

lemma loop_note_invariant:
  "note_old s = note s \<Longrightarrow> note_old (loop u t s) = note (loop u t s)"
  by (simp add: loop_def loop_volume_frame loop_pitch_def read_pitch_def track_pitch_def
      pitch_fraction_def set_note_def fscale_call_def noteOff_eq noteOn_eq Let_def
      direction_pitch_def loop_instrument_frame split: prod.splits)


section \<open>The state at startup, and evaluation\<close>

lemma real_arith_simps:
  "lift_op f (Fin a) (Fin c) = Fin (f a c)" "lift_op f NaN y = NaN" "lift_op f x NaN = NaN"
  "lift_rel r (Fin a) (Fin c) = r a c" "lift_rel r NaN y = False" "lift_rel r x NaN = False"
  "real_div (Fin a) (Fin c) = (if c = 0 then NaN else Fin (a / c))"
  "real_div NaN y = NaN" "real_div x NaN = NaN"
  by (simp_all add: lift_op_def lift_rel_def real_div_def split: cfloat.splits)

lemma after_setup_eq:
  "after_setup = globals\<lparr>mySerial := [0xB0, 0x07, 0, 0xB0, 0, 0, 0xC0, 79]\<rparr>"
  by (simp add: after_setup_def setupMidi_def talkMIDI_eq Let_def globals_def)

lemma after_setup_fields:
  "level_pitch after_setup = 0" "level_volume after_setup = 0"
  "min_level_pitch after_setup = 1000" "max_level_pitch after_setup = 0"
  "min_level_volume after_setup = 1000" "max_level_volume after_setup = 0"
  "note after_setup = 0" "note_old after_setup = 0"
  "volume after_setup = 0" "volume_old after_setup = 0"
  "instrument after_setup = 79" "fscale_calls after_setup = []"
  by (simp_all add: after_setup_eq globals_def)

lemmas eval_defs = loop_def loop_instrument_def loop_pitch_def loop_volume_def read_pitch_def
  read_volume_def track_pitch_def pitch_fraction_def set_note_def set_volume_def fscale_call_def
  noteOff_eq noteOn_eq talkMIDI_eq Let_def direction_pitch_def direction_volume_def
  no_touch_def after_setup_eq globals_def fscale_def real_arith_def real_arith_simps
  byte_of_float_def nonlinear_pitch_def nonlinear_volume_def
  min_note_def max_note_def min_volume_def max_volume_def velocity_def

lemma run_append: "run u (ts @ ts') s = run u ts' (run u ts s)"
  by (induction ts arbitrary: s) simp_all

section \<open>The instrument index in the loop\<close>

lemma loop_down_edge:
  "\<not> new_touch_up t \<Longrightarrow> new_touch_down t \<Longrightarrow> instrument (loop u t s) = instrument s - 1"
  by (simp add: loop_def loop_volume_frame loop_pitch_frame loop_instrument_def
      change_instrument_down noteOff_eq talkMIDI_eq Let_def)

lemma run_down_edges:
  "\<not> new_touch_up t \<Longrightarrow> new_touch_down t \<Longrightarrow>
   instrument (run u (replicate n t) s) = instrument s - of_nat n"
  by (induction n arbitrary: s) (simp_all add: loop_down_edge)

text \<open>
  Claim C1. An "instrument up" edge at index 127 gives index 0, and an "instrument down"
  edge at index 0 should give index 127. The first half holds (\<open>change_instrument_up\<close>
  for every index up to 127). The second half fails: the decrement of the byte 0 is 255,
  the test \<open>instrument < min_instrument\<close> of line 279 is then false, and the index stays
  255. Index 0 is reached from startup by 79 "instrument down" edges, and the 80th gives
  255.
\<close>

theorem change_instrument_down_from_zero:
  "instrument (change_instrument (-1) (s\<lparr>instrument := 0\<rparr>)) = 255 \<and>
   instrument (change_instrument 1 (s\<lparr>instrument := 127\<rparr>)) = 0 \<and>
   instrument (run u (replicate 79
      \<lparr>new_touch_up = False, new_touch_down = True, filtered_pitch = 0, filtered_volume = 0\<rparr>)
      after_setup) = 0 \<and>
   instrument (run u (replicate 80
      \<lparr>new_touch_up = False, new_touch_down = True, filtered_pitch = 0, filtered_volume = 0\<rparr>)
      after_setup) = 255"
  by (simp add: change_instrument_def Let_def max_instrument_def min_instrument_def
      run_down_edges after_setup_fields)

section \<open>The calibration ranges\<close>

lemma run_range_mono:
  "min_level_pitch (run u ts s) \<le> min_level_pitch s \<and>
   max_level_pitch s \<le> max_level_pitch (run u ts s) \<and>
   min_level_volume (run u ts s) \<le> min_level_volume s \<and>
   max_level_volume s \<le> max_level_volume (run u ts s)"
proof (induction ts arbitrary: s)
  case Nil
  show ?case by simp
next
  case (Cons t ts)
  have "min_level_pitch (loop u t s) \<le> min_level_pitch s"
    "max_level_pitch s \<le> max_level_pitch (loop u t s)"
    "min_level_volume (loop u t s) \<le> min_level_volume s"
    "max_level_volume s \<le> max_level_volume (loop u t s)"
    by (simp_all add: loop_tracker)
  with Cons.IH [of "loop u t s"] show ?case by simp
qed

text \<open>Once the stored level lies in the range, every later sample does.\<close>

lemma run_pitch_covers:
  assumes "min_level_pitch s \<le> level_pitch s" and "level_pitch s \<le> max_level_pitch s"
  shows "\<forall>x\<in>set (map filtered_pitch ts).
           min_level_pitch (run u ts s) \<le> x \<and> x \<le> max_level_pitch (run u ts s)"
  using assms
proof (induction ts arbitrary: s)
  case Nil
  show ?case by simp
next
  case (Cons t ts)
  let ?s = "loop u t s"
  have in_range: "min_level_pitch ?s \<le> level_pitch ?s" "level_pitch ?s \<le> max_level_pitch ?s"
    using Cons.prems by (simp_all add: loop_tracker)
  have "min_level_pitch (run u ts ?s) \<le> filtered_pitch t"
    "filtered_pitch t \<le> max_level_pitch (run u ts ?s)"
    using in_range run_range_mono [of u ts ?s] by (simp_all add: loop_tracker(1))
  with Cons.IH [OF in_range] show ?case by simp
qed

lemma run_volume_covers:
  assumes "min_level_volume s \<le> level_volume s" and "level_volume s \<le> max_level_volume s"
  shows "\<forall>x\<in>set (map filtered_volume ts).
           min_level_volume (run u ts s) \<le> x \<and> x \<le> max_level_volume (run u ts s)"
  using assms
proof (induction ts arbitrary: s)
  case Nil
  show ?case by simp
next
  case (Cons t ts)
  let ?s = "loop u t s"
  have in_range: "min_level_volume ?s \<le> level_volume ?s"
    "level_volume ?s \<le> max_level_volume ?s"
    using Cons.prems by (simp_all add: loop_tracker)
  have "min_level_volume (run u ts ?s) \<le> filtered_volume t"
    "filtered_volume t \<le> max_level_volume (run u ts ?s)"
    using in_range run_range_mono [of u ts ?s] by (simp_all add: loop_tracker(4))
  with Cons.IH [OF in_range] show ?case by simp
qed

text \<open>Samples equal to the stored level are skipped until the first one that differs.\<close>

lemma run_pitch_covers_changed:
  "\<forall>x\<in>set (dropWhile (\<lambda>x. x = level_pitch s) (map filtered_pitch ts)).
     min_level_pitch (run u ts s) \<le> x \<and> x \<le> max_level_pitch (run u ts s)"
proof (induction ts arbitrary: s)
  case Nil
  show ?case by simp
next
  case (Cons t ts)
  let ?s = "loop u t s"
  show ?case
  proof (cases "filtered_pitch t = level_pitch s")
    case True
    then have "level_pitch ?s = level_pitch s" by (simp add: loop_tracker)
    with Cons.IH [of ?s] True show ?thesis by simp
  next
    case False
    then have in_range: "min_level_pitch ?s \<le> level_pitch ?s"
      "level_pitch ?s \<le> max_level_pitch ?s"
      by (simp_all add: loop_tracker)
    have "\<forall>x\<in>set (map filtered_pitch (t # ts)).
            min_level_pitch (run u ts ?s) \<le> x \<and> x \<le> max_level_pitch (run u ts ?s)"
      using run_pitch_covers [OF in_range, of ts u] in_range run_range_mono [of u ts ?s]
      by (simp add: loop_tracker(1))
    with False show ?thesis by simp
  qed
qed

lemma run_volume_covers_changed:
  "\<forall>x\<in>set (dropWhile (\<lambda>x. x = level_volume s) (map filtered_volume ts)).
     min_level_volume (run u ts s) \<le> x \<and> x \<le> max_level_volume (run u ts s)"
proof (induction ts arbitrary: s)
  case Nil
  show ?case by simp
next
  case (Cons t ts)
  let ?s = "loop u t s"
  show ?case
  proof (cases "filtered_volume t = level_volume s")
    case True
    then have "level_volume ?s = level_volume s" by (simp add: loop_tracker)
    with Cons.IH [of ?s] True show ?thesis by simp
  next
    case False
    then have in_range: "min_level_volume ?s \<le> level_volume ?s"
      "level_volume ?s \<le> max_level_volume ?s"
      by (simp_all add: loop_tracker)
    have "\<forall>x\<in>set (map filtered_volume (t # ts)).
            min_level_volume (run u ts ?s) \<le> x \<and> x \<le> max_level_volume (run u ts ?s)"
      using run_volume_covers [OF in_range, of ts u] in_range run_range_mono [of u ts ?s]
      by (simp add: loop_tracker(4))
    with False show ?thesis by simp
  qed
qed

text \<open>
  Claim C7, amended. For each channel the observed minimum never increases and the
  observed maximum never decreases from any earlier state of the session to any later
  one, so the range is never reset. Every sample from the first non-zero sample of the
  channel on lies between the stored minimum and maximum. (A sample equal to the stored
  level is not processed, and the stored level is 0 at startup, so samples 0 that come
  before any other value are never recorded.)
\<close>

theorem calibration_range_widens:
  "min_level_pitch (run u (ts @ ts') after_setup) \<le> min_level_pitch (run u ts after_setup) \<and>
   max_level_pitch (run u ts after_setup) \<le> max_level_pitch (run u (ts @ ts') after_setup) \<and>
   min_level_volume (run u (ts @ ts') after_setup) \<le> min_level_volume (run u ts after_setup) \<and>
   max_level_volume (run u ts after_setup) \<le> max_level_volume (run u (ts @ ts') after_setup) \<and>
   (\<forall>x\<in>set (dropWhile (\<lambda>x. x = 0) (map filtered_pitch ts)).
      min_level_pitch (run u ts after_setup) \<le> x \<and>
      x \<le> max_level_pitch (run u ts after_setup)) \<and>
   (\<forall>x\<in>set (dropWhile (\<lambda>x. x = 0) (map filtered_volume ts)).
      min_level_volume (run u ts after_setup) \<le> x \<and>
      x \<le> max_level_volume (run u ts after_setup))"
  using run_range_mono [of u ts' "run u ts after_setup"]
    run_pitch_covers_changed [of after_setup ts u] run_volume_covers_changed [of after_setup ts u]
  by (simp add: run_append after_setup_fields)

theorem calibration_range_widens_witness:
  "min_level_pitch (run (real_arith 0) ([no_touch 0 0, no_touch 300 650] @ [no_touch 200 700]) after_setup)
     \<le> min_level_pitch (run (real_arith 0) [no_touch 0 0, no_touch 300 650] after_setup) \<and>
   dropWhile (\<lambda>x. x = 0) (map filtered_pitch [no_touch 0 0, no_touch 300 650]) = [300] \<and>
   min_level_pitch (run (real_arith 0) [no_touch 0 0, no_touch 300 650] after_setup) \<le> 300 \<and>
   300 \<le> max_level_pitch (run (real_arith 0) [no_touch 0 0, no_touch 300 650] after_setup) \<and>
   dropWhile (\<lambda>x. x = 0) (map filtered_volume [no_touch 0 0, no_touch 300 650]) = [650] \<and>
   min_level_volume (run (real_arith 0) [no_touch 0 0, no_touch 300 650] after_setup) \<le> 650 \<and>
   650 \<le> max_level_volume (run (real_arith 0) [no_touch 0 0, no_touch 300 650] after_setup)"
  using calibration_range_widens [of "real_arith 0" "[no_touch 0 0, no_touch 300 650]" "[no_touch 200 700]"]
  by (simp add: no_touch_def)

text \<open>
  Claim C7 as stated fails: after the pitch samples 0 and 300 the stored range is
  \<open>[300, 300]\<close>, which does not contain the first sample.
\<close>

theorem calibration_leading_zero_sample:
  "filtered_pitch (no_touch 0 0) \<in> set (map filtered_pitch [no_touch 0 0, no_touch 300 0]) \<and>
   min_level_pitch (run (real_arith 0) [no_touch 0 0, no_touch 300 0] after_setup) = 300 \<and>
   max_level_pitch (run (real_arith 0) [no_touch 0 0, no_touch 300 0] after_setup) = 300 \<and>
   \<not> (min_level_pitch (run (real_arith 0) [no_touch 0 0, no_touch 300 0] after_setup)
        \<le> filtered_pitch (no_touch 0 0))"
  by (simp add: loop_tracker after_setup_fields no_touch_def)

section \<open>The note state machine\<close>

lemma run_note_invariant:
  "note_old s = note s \<Longrightarrow> note_old (run u ts s) = note (run u ts s)"
  by (induction ts arbitrary: s) (simp_all add: loop_note_invariant)

text \<open>
  Claim C10. At startup and after every iteration of the poll loop \<open>note_old\<close> equals
  \<open>note\<close>; so the two note-off messages that an instrument change sends, at the start of
  the next iteration, name the same note.
\<close>

theorem note_old_equals_note:
  "note_old (run u ts after_setup) = note (run u ts after_setup) \<and>
   (new_touch_up t \<or> new_touch_down t \<longrightarrow>
    mySerial (loop_instrument t (run u ts after_setup)) =
      mySerial (run u ts after_setup) @
        [0xC0, instrument (loop_instrument t (run u ts after_setup)),
         0x80, note (run u ts after_setup), velocity,
         0x80, note (run u ts after_setup), velocity])"
  using run_note_invariant [of after_setup u ts]
    loop_instrument_bytes [of t "run u ts after_setup"]
  by (simp add: after_setup_fields)

theorem note_old_equals_note_witness:
  "note_old (run (real_arith 0) [no_touch 300 0, no_touch 200 0] after_setup) = 100 \<and>
   note (run (real_arith 0) [no_touch 300 0, no_touch 200 0] after_setup) = 100 \<and>
   mySerial (loop_instrument
      \<lparr>new_touch_up = True, new_touch_down = False, filtered_pitch = 200, filtered_volume = 0\<rparr>
      (run (real_arith 0) [no_touch 300 0, no_touch 200 0] after_setup)) =
     mySerial (run (real_arith 0) [no_touch 300 0, no_touch 200 0] after_setup) @
       [0xC0, 80, 0x80, 100, 60, 0x80, 100, 60]"
  using note_old_equals_note [of "real_arith 0" "[no_touch 300 0, no_touch 200 0]"
      "\<lparr>new_touch_up = True, new_touch_down = False, filtered_pitch = 200, filtered_volume = 0\<rparr>"]
  by (simp add: eval_defs change_instrument_def max_instrument_def)

text \<open>
  Claim C9. In an iteration in which the pitch sample changed, the value compared with
  0.95 is not at least 0.95, and the newly computed note equals the note that is sounding
  (the comparison of line 222 is with \<open>note_old\<close>, which equals \<open>note\<close> in every state
  the loop reaches), the pitch block writes nothing to the MIDI stream and leaves the
  sounding note as it is, so repeating such iterations never retriggers the note.
\<close>

theorem same_note_no_midi:
  assumes "level_pitch (read_pitch t s) \<noteq> level_pitch_old (read_pitch t s)"
    and "\<not> f_ge u (fst (pitch_fraction u (track_pitch (read_pitch t s)))) (f_of u 0.95)"
    and "note (set_note u (snd (pitch_fraction u (track_pitch (read_pitch t s))))) = note_old s"
  shows "mySerial (loop_pitch u t s) = mySerial s \<and>
         note (loop_pitch u t s) = note_old s \<and> note_old (loop_pitch u t s) = note_old s"
  using assms
  by (simp add: loop_pitch_def read_pitch_def track_pitch_def pitch_fraction_def set_note_def
      fscale_call_def Let_def direction_pitch_def split: prod.splits if_splits)

theorem same_note_no_midi_witness:
  "level_pitch (read_pitch (no_touch 150 0) (run (real_arith 0) [no_touch 300 0, no_touch 200 0] after_setup))
     \<noteq> level_pitch_old
         (read_pitch (no_touch 150 0) (run (real_arith 0) [no_touch 300 0, no_touch 200 0] after_setup)) \<and>
   fst (pitch_fraction (real_arith 0) (track_pitch (read_pitch (no_touch 150 0)
      (run (real_arith 0) [no_touch 300 0, no_touch 200 0] after_setup)))) = Fin 0 \<and>
   note_old (run (real_arith 0) [no_touch 300 0, no_touch 200 0] after_setup) = 100 \<and>
   mySerial (loop_pitch (real_arith 0) (no_touch 150 0) (run (real_arith 0) [no_touch 300 0, no_touch 200 0] after_setup)) =
     mySerial (run (real_arith 0) [no_touch 300 0, no_touch 200 0] after_setup) \<and>
   note (loop_pitch (real_arith 0) (no_touch 150 0) (run (real_arith 0) [no_touch 300 0, no_touch 200 0] after_setup)) = 100"
  using same_note_no_midi
    [of "no_touch 150 0" "run (real_arith 0) [no_touch 300 0, no_touch 200 0] after_setup"
      "real_arith 0"]
  by (simp add: eval_defs)

section \<open>The calls of the mapper\<close>













section \<open>The volume\<close>

text \<open>
  When the changed sample is not a new minimum, the volume is recomputed, and the
  control change is sent exactly when the volume differs from the last one sent.
\<close>

lemma loop_volume_recomputes:
  assumes "filtered_volume t \<noteq> level_volume s" and "min_level_volume s \<le> filtered_volume t"
  shows "volume (loop_volume u t s) =
           f_byte u (fscale u (f_of u (of_int (min_level_volume s)))
             (f_of u (of_int (max (max_level_volume s) (filtered_volume t))))
             (f_of u 127) (f_of u 0)
             (f_of u (of_int (filtered_volume t))) (f_of u (-10))) \<and>
         volume_old (loop_volume u t s) = volume (loop_volume u t s) \<and>
         mySerial (loop_volume u t s) =
           mySerial s @ (if volume (loop_volume u t s) \<noteq> volume_old s
                         then [0xB0, 0x07, volume (loop_volume u t s)] else [])"
  using assms
  by (simp add: loop_volume_def read_volume_def set_volume_def fscale_call_def talkMIDI_eq
      Let_def direction_volume_def max_volume_def min_volume_def nonlinear_volume_def max_def)

text \<open>When the sample is a new minimum, nothing is recomputed and nothing is sent.\<close>

lemma loop_volume_new_minimum:
  assumes "filtered_volume t < min_level_volume s"
  shows "volume (loop_volume u t s) = volume s \<and>
         volume_old (loop_volume u t s) = volume_old s \<and>
         mySerial (loop_volume u t s) = mySerial s \<and>
         fscale_calls (loop_volume u t s) = fscale_calls s"
  using assms
  by (simp add: loop_volume_def read_volume_def Let_def)

text \<open>
  Claim C2. The volume should be recomputed in every iteration whose volume sample
  changed, also when the sample is a new minimum or maximum. After the volume samples 600
  and 500 the range is \<open>[500, 600]\<close>, the mapped volume of the sample 500 is 127 (the
  normalised value is 0, which involves no rounding) and the last volume sent is 0; yet
  the second iteration, whose sample is a new minimum, leaves \<open>volume\<close> at 0 and writes
  nothing to the MIDI stream, whatever the float arithmetic.
\<close>

theorem volume_skipped_on_new_minimum:
  "level_volume (run u [no_touch 0 600, no_touch 0 500] after_setup) = 500 \<and>
   level_volume_old (run u [no_touch 0 600, no_touch 0 500] after_setup) = 600 \<and>
   min_level_volume (run u [no_touch 0 600, no_touch 0 500] after_setup) = 500 \<and>
   max_level_volume (run u [no_touch 0 600, no_touch 0 500] after_setup) = 600 \<and>
   f_byte (real_arith 0) (fst (fscale_call (real_arith 0) Volume 500 600 max_volume min_volume
      500 nonlinear_volume after_setup)) = 127 \<and>
   volume_old (run u [no_touch 0 600] after_setup) = 0 \<and>
   volume (run u [no_touch 0 600, no_touch 0 500] after_setup) = 0 \<and>
   mySerial (run u [no_touch 0 600, no_touch 0 500] after_setup) =
     mySerial (run u [no_touch 0 600] after_setup)"
  by (simp add: eval_defs)

end
